theory Spec2Isabelle
  imports Main
begin

section \<open>Data model of createDynamoDBEventProcessor.ts\<close>

text \<open>
  JavaScript values that travel through the processor (payloads, operations, execution
  results, DynamoDB images) are JSON-like trees. Numbers are kept as integers: no
  arithmetic is done on them here.
\<close>

datatype json =
    JNull
  | JBool bool
  | JNumber int
  | JString string
  | JArray "json list"
  | JObject "(string \<times> json) list"

text \<open>
  A thrown value or a rejected promise. \<open>TypeError\<close> is what reading a property of
  \<open>undefined\<close> throws, \<open>SyntaxError\<close> what \<open>JSON.parse\<close> throws; \<open>Thrown\<close> stands
  for whatever a collaborator rejects with.
\<close>

datatype error = TypeError | SyntaxError | Thrown string

text \<open>The \<open>aws-lambda\<close> record type: \<open>eventName\<close> and \<open>dynamodb\<close> are optional.\<close>

datatype event_name = INSERT | MODIFY | REMOVE

record StreamRecord =
  NewImage :: "json option"

record DynamoDBRecord =
  eventName :: "event_name option"
  dynamodb :: "StreamRecord option"

text \<open>\<open>ISubscriptionEvent\<close>, \<open>IConnection\<close> and \<open>ISubscriber\<close> of \<open>./types\<close>.\<close>

record ISubscriptionEvent =
  event :: string
  payload :: json

record IConnectionData =
  useLegacyProtocol :: "bool option"

record IConnection =
  connection_id :: string
  data :: IConnectionData

record ISubscriber =
  connection :: IConnection
  operation :: json
  operationId :: string

text \<open>
  An async iterator is the sequence of outcomes its successive \<open>next()\<close> calls will
  have: each one throws (\<open>Inl\<close>) or gives the \<open>value\<close> field of an iterator result,
  \<open>None\<close> being \<open>undefined\<close>. Past the end of the sequence \<open>next()\<close> answers
  \<open>{done: true, value: undefined}\<close>.
\<close>

type_synonym async_iterator = "(error + json option) list"

definition iterator_next :: "async_iterator \<Rightarrow> (error + json option) \<times> async_iterator" where
  "iterator_next it = (case it of [] \<Rightarrow> (Inr None, []) | r # rest \<Rightarrow> (r, rest))"

text \<open>\<open>createAsyncIterator\<close> of iterall over an array: one result per element.\<close>

definition createAsyncIterator :: "json list \<Rightarrow> async_iterator" where
  "createAsyncIterator vs = map (\<lambda>v. Inr (Some v)) vs"

text \<open>
  What \<open>execute\<close> resolves to: an async iterable of execution results, or a plain
  execution result. The test \<open>isAsyncIterable\<close> of line 105 is the distinction of the two
  cases.
\<close>

datatype execute_result = ExecutionResult json | AsyncIterable async_iterator

text \<open>The argument of \<open>PubSub.asyncIterator\<close>: \<open>string | string[]\<close>.\<close>

datatype eventNames = Name string | Names "string list"

text \<open>
  The options object handed to \<open>execute\<close> for one subscriber. The \<open>pubSub\<close> field is the
  one public method of the \<open>PubSub\<close> object, \<open>asyncIterator\<close>.
\<close>

record ExecuteOptions =
  exec_event :: json
  exec_lambdaContext :: json
  exec_connection :: IConnection
  exec_operation :: json
  exec_pubSub :: "eventNames \<Rightarrow> error + async_iterator"
  registerSubscriptions :: bool
  useSubscriptions :: bool

text \<open>
  The lazy sequence of subscriber pages an async generator produces: it yields a page, ends,
  or throws. The sequence is finite, and every call of a collaborator is taken to settle:
  a generator that never ends or a promise that never settles is outside this model.
\<close>

datatype pages = End | Raise error | Yield "ISubscriber list" pages

record IConnectionManager =
  sendToConnection :: "IConnection \<Rightarrow> string \<Rightarrow> error + unit"

record ISubscriptionManager =
  subscribersByEventName :: "string \<Rightarrow> pages"

record DynamoDBEventProcessorOptions =
  connectionManager :: IConnectionManager
  context_opt :: "json option"
  schema :: json
  subscriptionManager :: ISubscriptionManager

text \<open>The message object passed to \<open>formatMessage\<close>.\<close>

record OutboundMessage =
  id_m :: string
  payload_m :: json
  type_m :: string

record ServerEventTypes =
  GQL_DATA :: string

record Protocol =
  SERVER_EVENT_TYPES :: ServerEventTypes

text \<open>
  The imported functions whose code is outside this file: they are parameters of the
  model. Each may throw, except \<open>getProtocol\<close>, which is a lookup.
\<close>

record modules =
  unmarshall :: "json option \<Rightarrow> error + ISubscriptionEvent"
  JSON_parse :: "string \<Rightarrow> error + json"
  execute :: "DynamoDBEventProcessorOptions \<Rightarrow> ExecuteOptions \<Rightarrow> error + execute_result"
  getProtocol :: "bool \<Rightarrow> Protocol"
  formatMessage :: "OutboundMessage \<Rightarrow> error + string"

section \<open>PubSub (lines 25-45)\<close>

record PubSub =
  events :: "ISubscriptionEvent list"

fun names_of :: "eventNames \<Rightarrow> string list" where
  "names_of (Names ns) = ns"
| "names_of (Name n) = [n]"

text \<open>
  The \<open>map\<close> callback: a string payload goes through \<open>JSON.parse\<close>, anything else is
  passed on. The first throw ends the map.
\<close>

fun parse_payloads :: "(string \<Rightarrow> error + json) \<Rightarrow> ISubscriptionEvent list \<Rightarrow> error + json list" where
  "parse_payloads parse [] = Inr []"
| "parse_payloads parse (e # es) =
     (case (case payload e of JString s \<Rightarrow> parse s | v \<Rightarrow> Inr v) of
        Inl err \<Rightarrow> Inl err
      | Inr v \<Rightarrow> (case parse_payloads parse es of
                    Inl err \<Rightarrow> Inl err
                  | Inr vs \<Rightarrow> Inr (v # vs)))"

definition asyncIterator :: "modules \<Rightarrow> PubSub \<Rightarrow> eventNames \<Rightarrow> error + async_iterator" where
  "asyncIterator M pubSub evNames =
     (let names = names_of evNames in
      case parse_payloads (JSON_parse M) (filter (\<lambda>e. event e \<in> set names) (events pubSub)) of
        Inl err \<Rightarrow> Inl err
      | Inr vs \<Rightarrow> Inr (createAsyncIterator vs))"

section \<open>The stream handler (lines 52-134)\<close>

text \<open>
  The calls one subscriber's task makes on its collaborators, in order. Tasks of one
  page run concurrently, so each task keeps its own list.
\<close>

datatype call =
    ExecuteCall IConnection json
  | IteratorNext
  | SendToConnection IConnection string
  | ConsoleLog error

text \<open>
  What the handler itself does, in order: asking the registry for the subscribers of an
  event name, asking the generator for its next page, and running one page of tasks to
  completion (one list of calls per subscriber, in the order of the page).
\<close>

datatype action =
    SubscribersByEventName string
  | NextPage
  | Page "call list list"

text \<open>
  The async callback of lines 86-127, for one subscriber: first the argument object of the
  call of \<open>execute\<close> (lines 91-103), with a fresh \<open>PubSub\<close> holding the one event, then
  the callback itself.
\<close>

definition executeOptions ::
  "modules \<Rightarrow> json \<Rightarrow> ISubscriptionEvent \<Rightarrow> ISubscriber \<Rightarrow> ExecuteOptions" where
  "executeOptions M lambdaContext ev subscriber =
     \<lparr>exec_event = JObject [],
      exec_lambdaContext = lambdaContext,
      exec_connection = connection subscriber,
      exec_operation = operation subscriber,
      exec_pubSub = asyncIterator M \<lparr>events = [ev]\<rparr>,
      registerSubscriptions = False,
      useSubscriptions = True\<rparr>"

definition subscriberTask ::
  "modules \<Rightarrow> DynamoDBEventProcessorOptions \<Rightarrow> json \<Rightarrow> ISubscriptionEvent \<Rightarrow> ISubscriber
   \<Rightarrow> (error + unit) \<times> call list" where
  "subscriberTask M opts lambdaContext ev subscriber =
     (let started = [ExecuteCall (connection subscriber) (operation subscriber)] in
      case execute M opts (executeOptions M lambdaContext ev subscriber) of
        Inl err \<Rightarrow> (Inl err, started)
      | Inr iterable \<Rightarrow>
          (case iterable of
             ExecutionResult r \<Rightarrow> (Inr (), started)
           | AsyncIterable iterator \<Rightarrow>
               (case fst (iterator_next iterator) of
                  Inl err \<Rightarrow> (Inl err, started @ [IteratorNext])
                | Inr None \<Rightarrow> (Inr (), started @ [IteratorNext])
                | Inr (Some v) \<Rightarrow>
                    if v = JNull then (Inr (), started @ [IteratorNext])
                    else
                      (let useLegacy =
                             (case useLegacyProtocol (data (connection subscriber)) of
                                None \<Rightarrow> False
                              | Some b \<Rightarrow> b);
                           tags = SERVER_EVENT_TYPES (getProtocol M useLegacy)
                       in
                       case formatMessage M
                              \<lparr>id_m = operationId subscriber,
                               payload_m = v,
                               type_m = GQL_DATA tags\<rparr> of
                         Inl err \<Rightarrow> (Inl err, started @ [IteratorNext])
                       | Inr m \<Rightarrow>
                           (sendToConnection (connectionManager opts) (connection subscriber) m,
                            started @ [IteratorNext, SendToConnection (connection subscriber) m])))))"

text \<open>\<open>promise.catch(e => console.log(e))\<close> of line 128.\<close>

definition catch_log :: "(error + unit) \<times> call list \<Rightarrow> (error + unit) \<times> call list" where
  "catch_log p =
     (case fst p of
        Inl e \<Rightarrow> (Inr (), snd p @ [ConsoleLog e])
      | Inr u \<Rightarrow> (Inr u, snd p))"

text \<open>
  \<open>Promise.all\<close>: rejects as soon as one promise rejects (here: with the first rejection
  in the order of the array), resolves when all have resolved.
\<close>

fun Promise_all :: "(error + unit) list \<Rightarrow> error + unit" where
  "Promise_all [] = Inr ()"
| "Promise_all (Inl e # ps) = Inl e"
| "Promise_all (Inr u # ps) = Promise_all ps"

text \<open>The body of the \<open>for await\<close> loop (lines 85-130) for one page.\<close>

definition processPage ::
  "modules \<Rightarrow> DynamoDBEventProcessorOptions \<Rightarrow> json \<Rightarrow> ISubscriptionEvent \<Rightarrow> ISubscriber list
   \<Rightarrow> (error + unit) \<times> call list list" where
  "processPage M opts lambdaContext ev subscribers =
     (let promises = map (\<lambda>s. catch_log (subscriberTask M opts lambdaContext ev s)) subscribers
      in (Promise_all (map fst promises), map snd promises))"

text \<open>
  The \<open>for await\<close> loop of lines 82-131 over the generator. The handler's own actions are
  appended to the history \<open>h\<close> it is given.
\<close>

fun forAwaitPages ::
  "modules \<Rightarrow> DynamoDBEventProcessorOptions \<Rightarrow> json \<Rightarrow> ISubscriptionEvent \<Rightarrow> pages
   \<Rightarrow> action list \<Rightarrow> (error + unit) \<times> action list" where
  "forAwaitPages M opts lambdaContext ev End h = (Inr (), h @ [NextPage])"
| "forAwaitPages M opts lambdaContext ev (Raise e) h = (Inl e, h @ [NextPage])"
| "forAwaitPages M opts lambdaContext ev (Yield subscribers rest) h =
     (case processPage M opts lambdaContext ev subscribers of
        (Inl e, logs) \<Rightarrow> (Inl e, h @ [NextPage, Page logs])
      | (Inr u, logs) \<Rightarrow> forAwaitPages M opts lambdaContext ev rest (h @ [NextPage, Page logs]))"

text \<open>
  The handler: the loop over \<open>Records\<close> (lines 62-132). \<open>Inr ()\<close> is the promise resolving,
  \<open>Inl e\<close> the promise rejecting with \<open>e\<close>.
\<close>

fun processDynamoDBStreamEvents ::
  "modules \<Rightarrow> DynamoDBEventProcessorOptions \<Rightarrow> DynamoDBRecord list \<Rightarrow> json
   \<Rightarrow> action list \<Rightarrow> (error + unit) \<times> action list" where
  "processDynamoDBStreamEvents M opts [] lambdaContext h = (Inr (), h)"
| "processDynamoDBStreamEvents M opts (record # Records) lambdaContext h =
     (if eventName record \<noteq> Some INSERT then
        processDynamoDBStreamEvents M opts Records lambdaContext h
      else
        (case dynamodb record of
           None \<Rightarrow> (Inl TypeError, h)
         | Some d \<Rightarrow>
             (case unmarshall M (NewImage d) of
                Inl e \<Rightarrow> (Inl e, h)
              | Inr ev \<Rightarrow>
                  (case forAwaitPages M opts lambdaContext ev
                          (subscribersByEventName (subscriptionManager opts) (event ev))
                          (h @ [SubscribersByEventName (event ev)]) of
                     (Inl e, h') \<Rightarrow> (Inl e, h')
                   | (Inr u, h') \<Rightarrow> processDynamoDBStreamEvents M opts Records lambdaContext h'))))"


section \<open>Derived notions\<close>

text \<open>What one subscriber's task has called once its promise, with the catch, has settled.\<close>

definition settle ::
  "modules \<Rightarrow> DynamoDBEventProcessorOptions \<Rightarrow> json \<Rightarrow> ISubscriptionEvent \<Rightarrow> ISubscriber
   \<Rightarrow> call list" where
  "settle M opts lambdaContext ev s = snd (catch_log (subscriberTask M opts lambdaContext ev s))"

text \<open>How the generator of pages ends: exhausted, or by throwing.\<close>

fun generator_outcome :: "pages \<Rightarrow> error + unit" where
  "generator_outcome End = Inr ()"
| "generator_outcome (Raise e) = Inl e"
| "generator_outcome (Yield subscribers rest) = generator_outcome rest"

fun subscribers_of :: "pages \<Rightarrow> ISubscriber list" where
  "subscribers_of End = []"
| "subscribers_of (Raise e) = []"
| "subscribers_of (Yield subscribers rest) = subscribers @ subscribers_of rest"

text \<open>
  The actions of a dispatch in which every page is run to completion before the next one
  is asked for.
\<close>

fun dispatch_actions ::
  "modules \<Rightarrow> DynamoDBEventProcessorOptions \<Rightarrow> json \<Rightarrow> ISubscriptionEvent \<Rightarrow> pages
   \<Rightarrow> action list" where
  "dispatch_actions M opts lambdaContext ev End = [NextPage]"
| "dispatch_actions M opts lambdaContext ev (Raise e) = [NextPage]"
| "dispatch_actions M opts lambdaContext ev (Yield subscribers rest) =
     NextPage # Page (map (settle M opts lambdaContext ev) subscribers)
       # dispatch_actions M opts lambdaContext ev rest"

fun isSend :: "call \<Rightarrow> bool" where
  "isSend (SendToConnection c m) = True"
| "isSend other = False"

section \<open>A concrete deployment\<close>

text \<open>
  Six subscribers of the event \<open>NOTE_ADDED\<close> on two pages: one whose connection is gone,
  one that matches, one whose iterator throws, one whose operation does not start, one
  whose filter rejects the event, and one on a legacy connection. The engine asks the
  \<open>PubSub\<close> for the iterator of \<open>NOTE_ADDED\<close> and hands it on. A present image is
  decoded to an event of that name with the image as payload; an absent image is decoded,
  as the library does, to the empty object, which has no event name and no payload (the
  empty name and \<open>null\<close> stand for them), and for which nobody is registered.
\<close>

definition conn_current :: IConnection where
  "conn_current = \<lparr>connection_id = ''c1'', data = \<lparr>useLegacyProtocol = None\<rparr>\<rparr>"

definition conn_legacy :: IConnection where
  "conn_legacy = \<lparr>connection_id = ''c2'', data = \<lparr>useLegacyProtocol = Some True\<rparr>\<rparr>"

definition conn_gone :: IConnection where
  "conn_gone = \<lparr>connection_id = ''gone'', data = \<lparr>useLegacyProtocol = Some False\<rparr>\<rparr>"

definition sub_match :: ISubscriber where
  "sub_match = \<lparr>connection = conn_current, operation = JString ''match'', operationId = ''1''\<rparr>"

definition sub_legacy :: ISubscriber where
  "sub_legacy = \<lparr>connection = conn_legacy, operation = JString ''match'', operationId = ''2''\<rparr>"

definition sub_filtered :: ISubscriber where
  "sub_filtered = \<lparr>connection = conn_current, operation = JString ''filtered'', operationId = ''3''\<rparr>"

definition sub_gone :: ISubscriber where
  "sub_gone = \<lparr>connection = conn_gone, operation = JString ''match'', operationId = ''4''\<rparr>"

definition sub_broken :: ISubscriber where
  "sub_broken = \<lparr>connection = conn_current, operation = JString ''broken'', operationId = ''5''\<rparr>"

definition sub_invalid :: ISubscriber where
  "sub_invalid = \<lparr>connection = conn_current, operation = JString ''invalid'', operationId = ''6''\<rparr>"

definition demo_execute :: "DynamoDBEventProcessorOptions \<Rightarrow> ExecuteOptions \<Rightarrow> error + execute_result" where
  "demo_execute opts xo =
     (if exec_operation xo = JString ''invalid'' then Inr (ExecutionResult JNull)
      else if exec_operation xo = JString ''broken'' then Inr (AsyncIterable [Inl (Thrown ''pull'')])
      else if exec_operation xo = JString ''filtered'' then Inr (AsyncIterable [Inr None])
      else (case exec_pubSub xo (Name ''NOTE_ADDED'') of
              Inl e \<Rightarrow> Inl e
            | Inr it \<Rightarrow> Inr (AsyncIterable it)))"

definition demo_modules :: modules where
  "demo_modules =
     \<lparr>unmarshall = (\<lambda>img. case img of
                       None \<Rightarrow> Inr \<lparr>event = [], payload = JNull\<rparr>
                     | Some v \<Rightarrow> Inr \<lparr>event = ''NOTE_ADDED'', payload = v\<rparr>),
      JSON_parse = (\<lambda>s. if s = ''1'' then Inr (JNumber 1) else Inl SyntaxError),
      execute = demo_execute,
      getProtocol = (\<lambda>b. \<lparr>SERVER_EVENT_TYPES = \<lparr>GQL_DATA = (if b then ''data'' else ''next'')\<rparr>\<rparr>),
      formatMessage = (\<lambda>m. Inr (id_m m @ '':'' @ type_m m))\<rparr>"

definition demo_pages :: "string \<Rightarrow> pages" where
  "demo_pages name =
     (if name = ''NOTE_ADDED''
      then Yield [sub_gone, sub_match] (Yield [sub_broken, sub_invalid, sub_filtered, sub_legacy] End)
      else End)"

definition demo_options :: DynamoDBEventProcessorOptions where
  "demo_options =
     \<lparr>connectionManager =
        \<lparr>sendToConnection = (\<lambda>c m. if connection_id c = ''gone'' then Inl (Thrown ''gone'') else Inr ())\<rparr>,
      context_opt = None,
      schema = JNull,
      subscriptionManager = \<lparr>subscribersByEventName = demo_pages\<rparr>\<rparr>"

definition insert_record :: "json \<Rightarrow> DynamoDBRecord" where
  "insert_record img = \<lparr>eventName = Some INSERT, dynamodb = Some \<lparr>NewImage = Some img\<rparr>\<rparr>"

text \<open>
  An engine that asks the \<open>PubSub\<close> for the iterator as well, but reports what that
  request throws as a plain execution result, as an operation that failed to start.
\<close>

definition reporting_execute :: "DynamoDBEventProcessorOptions \<Rightarrow> ExecuteOptions \<Rightarrow> error + execute_result" where
  "reporting_execute opts xo =
     (case exec_pubSub xo (Name ''NOTE_ADDED'') of
        Inl e \<Rightarrow> Inr (ExecutionResult (JObject [(''errors'', JArray [JString ''subscribe failed''])]))
      | Inr it \<Rightarrow> Inr (AsyncIterable it))"

definition reporting_modules :: modules where
  "reporting_modules = demo_modules\<lparr>execute := reporting_execute\<rparr>"

text \<open>A registry whose subscribers all run the engine on the event source.\<close>

definition matching_pages :: pages where
  "matching_pages = Yield [sub_match] (Yield [sub_legacy] End)"

definition matching_options :: DynamoDBEventProcessorOptions where
  "matching_options =
     demo_options\<lparr>subscriptionManager := \<lparr>subscribersByEventName = (\<lambda>name. matching_pages)\<rparr>\<rparr>"

section \<open>Basic facts\<close>

lemma fst_catch_log: "fst (catch_log p) = Inr ()"
  by (simp add: catch_log_def split: sum.splits)

lemma Promise_all_caught:
  "Promise_all (map (\<lambda>s. fst (catch_log (f s))) subscribers) = Inr ()"
  by (induction subscribers) (simp_all add: fst_catch_log)

lemma processPage_settled:
  "processPage M opts lc ev subscribers = (Inr (), map (settle M opts lc ev) subscribers)"
  unfolding processPage_def Let_def settle_def
  by (simp add: Promise_all_caught comp_def)

lemma forAwaitPages_Yield:
  "forAwaitPages M opts lc ev (Yield subscribers rest) h =
     forAwaitPages M opts lc ev rest (h @ [NextPage, Page (map (settle M opts lc ev) subscribers)])"
  by (simp add: processPage_settled)

lemma forAwaitPages_history:
  "forAwaitPages M opts lc ev ps h =
     (fst (forAwaitPages M opts lc ev ps []), h @ snd (forAwaitPages M opts lc ev ps []))"
proof (induction ps arbitrary: h)
  case End
  show ?case by simp
next
  case (Raise e)
  show ?case by simp
next
  case (Yield subscribers rest)
  let ?pg = "[NextPage, Page (map (settle M opts lc ev) subscribers)]"
  have "forAwaitPages M opts lc ev (Yield subscribers rest) h =
          forAwaitPages M opts lc ev rest (h @ ?pg)"
    by (rule forAwaitPages_Yield)
  also have "\<dots> = (fst (forAwaitPages M opts lc ev rest []),
                    (h @ ?pg) @ snd (forAwaitPages M opts lc ev rest []))"
    by (rule Yield.IH)
  finally have a: "forAwaitPages M opts lc ev (Yield subscribers rest) h =
      (fst (forAwaitPages M opts lc ev rest []), h @ ?pg @ snd (forAwaitPages M opts lc ev rest []))"
    by simp
  have "forAwaitPages M opts lc ev (Yield subscribers rest) [] =
          forAwaitPages M opts lc ev rest ([] @ ?pg)"
    by (rule forAwaitPages_Yield)
  also have "\<dots> = (fst (forAwaitPages M opts lc ev rest []),
                    ([] @ ?pg) @ snd (forAwaitPages M opts lc ev rest []))"
    by (rule Yield.IH)
  finally have b: "forAwaitPages M opts lc ev (Yield subscribers rest) [] =
      (fst (forAwaitPages M opts lc ev rest []), ?pg @ snd (forAwaitPages M opts lc ev rest []))"
    by simp
  show ?case by (simp only: a b fst_conv snd_conv)
qed

lemma forAwaitPages_outcome:
  "fst (forAwaitPages M opts lc ev ps h) = generator_outcome ps"
  by (induction ps arbitrary: h) (simp_all add: processPage_settled)

lemma process_history:
  "processDynamoDBStreamEvents M opts rs lc h =
     (fst (processDynamoDBStreamEvents M opts rs lc []),
      h @ snd (processDynamoDBStreamEvents M opts rs lc []))"
proof (induction rs arbitrary: h)
  case Nil
  show ?case by simp
next
  case (Cons r rs)
  show ?case
  proof (cases "eventName r \<noteq> Some INSERT")
    case True
    then show ?thesis using Cons.IH[of h] by simp
  next
    case ins: False
    show ?thesis
    proof (cases "dynamodb r")
      case None
      then show ?thesis using ins by simp
    next
      case (Some d)
      show ?thesis
      proof (cases "unmarshall M (NewImage d)")
        case (Inl e)
        then show ?thesis using ins Some by simp
      next
        case (Inr ev)
        let ?F = "forAwaitPages M opts lc ev (subscribersByEventName (subscriptionManager opts) (event ev))"
        let ?t = "SubscribersByEventName (event ev) # snd (?F [])"
        have F: "?F (k @ [SubscribersByEventName (event ev)]) = (fst (?F []), k @ ?t)" for k
          using forAwaitPages_history[of M opts lc ev _ "k @ [SubscribersByEventName (event ev)]"]
          by simp
        show ?thesis
        proof (cases "fst (?F [])")
          case (Inl e)
          then show ?thesis using ins Some Inr F[of h] F[of "[]"] by simp
        next
          case ok: (Inr u)
          have "processDynamoDBStreamEvents M opts (r # rs) lc h =
                  processDynamoDBStreamEvents M opts rs lc (h @ ?t)"
            using ins Some Inr F[of h] ok by simp
          moreover have "processDynamoDBStreamEvents M opts (r # rs) lc [] =
                  processDynamoDBStreamEvents M opts rs lc ?t"
            using ins Some Inr F[of "[]"] ok by simp
          moreover have "processDynamoDBStreamEvents M opts rs lc (h @ ?t) =
              (fst (processDynamoDBStreamEvents M opts rs lc []),
               (h @ ?t) @ snd (processDynamoDBStreamEvents M opts rs lc []))"
            by (rule Cons.IH)
          moreover have "processDynamoDBStreamEvents M opts rs lc ?t =
              (fst (processDynamoDBStreamEvents M opts rs lc []),
               ?t @ snd (processDynamoDBStreamEvents M opts rs lc []))"
            by (rule Cons.IH)
          ultimately show ?thesis by simp
        qed
      qed
    qed
  qed
qed

lemma forAwaitPages_actions:
  "snd (forAwaitPages M opts lc ev ps h) = h @ dispatch_actions M opts lc ev ps"
  by (induction ps arbitrary: h) (simp_all add: processPage_settled)

lemma asyncIterator_single:
  "asyncIterator M \<lparr>events = [ev]\<rparr> ns =
     (if event ev \<in> set (names_of ns) then
        (case payload ev of
           JString s \<Rightarrow> (case JSON_parse M s of Inl e \<Rightarrow> Inl e | Inr v \<Rightarrow> Inr [Inr (Some v)])
         | v \<Rightarrow> Inr [Inr (Some v)])
      else Inr [])"
  by (simp add: asyncIterator_def Let_def createAsyncIterator_def split: json.splits sum.splits)

lemma settle_cases:
  "settle M opts lc ev s =
     (case execute M opts (executeOptions M lc ev s) of
        Inl e \<Rightarrow> [ExecuteCall (connection s) (operation s), ConsoleLog e]
      | Inr (ExecutionResult r) \<Rightarrow> [ExecuteCall (connection s) (operation s)]
      | Inr (AsyncIterable it) \<Rightarrow>
          (case fst (iterator_next it) of
             Inl e \<Rightarrow> [ExecuteCall (connection s) (operation s), IteratorNext, ConsoleLog e]
           | Inr None \<Rightarrow> [ExecuteCall (connection s) (operation s), IteratorNext]
           | Inr (Some v) \<Rightarrow>
               if v = JNull then [ExecuteCall (connection s) (operation s), IteratorNext]
               else
                 (case formatMessage M
                         \<lparr>id_m = operationId s, payload_m = v,
                          type_m = GQL_DATA (SERVER_EVENT_TYPES (getProtocol M
                                     (case useLegacyProtocol (data (connection s)) of
                                        None \<Rightarrow> False | Some b \<Rightarrow> b)))\<rparr> of
                    Inl e \<Rightarrow> [ExecuteCall (connection s) (operation s), IteratorNext, ConsoleLog e]
                  | Inr m \<Rightarrow>
                      (case sendToConnection (connectionManager opts) (connection s) m of
                         Inl e \<Rightarrow> [ExecuteCall (connection s) (operation s), IteratorNext,
                                   SendToConnection (connection s) m, ConsoleLog e]
                       | Inr u \<Rightarrow> [ExecuteCall (connection s) (operation s), IteratorNext,
                                   SendToConnection (connection s) m]))))"
  by (simp add: settle_def subscriberTask_def catch_log_def Let_def
           split: sum.split execute_result.split option.split)

text \<open>The deployment at work on one record.\<close>

lemmas demo_defs = conn_current_def conn_legacy_def conn_gone_def sub_match_def sub_legacy_def
  sub_filtered_def sub_gone_def sub_broken_def sub_invalid_def demo_execute_def demo_modules_def
  demo_pages_def demo_options_def insert_record_def

lemmas run_defs = processPage_def subscriberTask_def executeOptions_def catch_log_def
  asyncIterator_def createAsyncIterator_def iterator_next_def Let_def

lemma demo_run:
  "processDynamoDBStreamEvents demo_modules demo_options [insert_record (JNumber 7)] JNull [] =
     (Inr (),
      [SubscribersByEventName ''NOTE_ADDED'',
       NextPage,
       Page [[ExecuteCall conn_gone (JString ''match''), IteratorNext,
              SendToConnection conn_gone ''4:next'', ConsoleLog (Thrown ''gone'')],
             [ExecuteCall conn_current (JString ''match''), IteratorNext,
              SendToConnection conn_current ''1:next'']],
       NextPage,
       Page [[ExecuteCall conn_current (JString ''broken''), IteratorNext, ConsoleLog (Thrown ''pull'')],
             [ExecuteCall conn_current (JString ''invalid'')],
             [ExecuteCall conn_current (JString ''filtered''), IteratorNext],
             [ExecuteCall conn_legacy (JString ''match''), IteratorNext,
              SendToConnection conn_legacy ''2:data'']],
       NextPage])"
  by (simp add: demo_defs run_defs)

section \<open>The claims\<close>

text \<open>
  C1: whatever the execution engine, the parsing in the event source, the formatting and
  the delivery do for the subscribers (each may throw for any of them), the handler
  resolves, as long as every INSERT record decodes and the registry's generator of pages
  does not throw: no failure of a subscriber's execution or delivery reaches the host.
\<close>

theorem subscriber_failures_never_escape:
  assumes "\<forall>r \<in> set Records. eventName r = Some INSERT \<longrightarrow>
             (\<exists>d ev. dynamodb r = Some d \<and> unmarshall M (NewImage d) = Inr ev \<and>
                generator_outcome (subscribersByEventName (subscriptionManager opts) (event ev)) = Inr ())"
  shows "fst (processDynamoDBStreamEvents
                (M\<lparr>execute := ex, JSON_parse := parse, formatMessage := fmt, getProtocol := proto\<rparr>)
                (opts\<lparr>connectionManager := cm\<rparr>) Records lc h) = Inr ()"
proof -
  define M' where "M' = M\<lparr>execute := ex, JSON_parse := parse, formatMessage := fmt, getProtocol := proto\<rparr>"
  define opts' where "opts' = opts\<lparr>connectionManager := cm\<rparr>"
  have um: "unmarshall M' = unmarshall M"
    by (simp add: M'_def)
  have reg: "subscriptionManager opts' = subscriptionManager opts"
    by (simp add: opts'_def)
  have "fst (processDynamoDBStreamEvents M' opts' Records lc h) = Inr ()"
    using assms
  proof (induction Records arbitrary: h)
    case Nil
    show ?case by simp
  next
    case (Cons r rs)
    have rest: "fst (processDynamoDBStreamEvents M' opts' rs lc k) = Inr ()" for k
      using Cons.IH Cons.prems by simp
    show ?case
    proof (cases "eventName r = Some INSERT")
      case False
      then show ?thesis using rest[of h] by simp
    next
      case True
      then obtain d ev where d: "dynamodb r = Some d" and ev: "unmarshall M (NewImage d) = Inr ev"
        and g: "generator_outcome (subscribersByEventName (subscriptionManager opts) (event ev)) = Inr ()"
        using Cons.prems by auto
      let ?F = "forAwaitPages M' opts' lc ev (subscribersByEventName (subscriptionManager opts) (event ev))
                  (h @ [SubscribersByEventName (event ev)])"
      have "fst ?F = Inr ()"
        using g by (simp add: forAwaitPages_outcome)
      then obtain h' where F: "?F = (Inr (), h')"
        by (cases ?F) auto
      show ?thesis
        using True d ev F rest[of h'] by (simp add: um reg)
    qed
  qed
  then show ?thesis
    by (simp add: M'_def opts'_def)
qed

theorem subscriber_failures_never_escape_witness:
  "subscriberTask demo_modules demo_options JNull \<lparr>event = ''NOTE_ADDED'', payload = JNumber 7\<rparr> sub_gone =
     (Inl (Thrown ''gone''),
      [ExecuteCall conn_gone (JString ''match''), IteratorNext, SendToConnection conn_gone ''4:next'']) \<and>
   subscriberTask demo_modules demo_options JNull \<lparr>event = ''NOTE_ADDED'', payload = JNumber 7\<rparr> sub_broken =
     (Inl (Thrown ''pull''), [ExecuteCall conn_current (JString ''broken''), IteratorNext]) \<and>
   fst (processDynamoDBStreamEvents demo_modules demo_options
          [insert_record (JNumber 7), insert_record (JNumber 8)] JNull []) = Inr ()"
proof -
  have pre: "\<forall>r \<in> set [insert_record (JNumber 7), insert_record (JNumber 8)].
      eventName r = Some INSERT \<longrightarrow>
        (\<exists>d ev. dynamodb r = Some d \<and> unmarshall demo_modules (NewImage d) = Inr ev \<and>
           generator_outcome (subscribersByEventName (subscriptionManager demo_options) (event ev)) = Inr ())"
    by (simp add: demo_defs)
  have same: "demo_modules\<lparr>execute := demo_execute, JSON_parse := JSON_parse demo_modules,
                formatMessage := formatMessage demo_modules, getProtocol := getProtocol demo_modules\<rparr>
              = demo_modules"
    by (simp add: demo_modules_def)
  have same': "demo_options\<lparr>connectionManager := connectionManager demo_options\<rparr> = demo_options"
    by simp
  have "fst (processDynamoDBStreamEvents demo_modules demo_options
          [insert_record (JNumber 7), insert_record (JNumber 8)] JNull []) = Inr ()"
    using subscriber_failures_never_escape[OF pre, where ex = demo_execute
            and parse = "JSON_parse demo_modules" and fmt = "formatMessage demo_modules"
            and proto = "getProtocol demo_modules" and cm = "connectionManager demo_options"
            and lc = JNull and h = "[]"]
    by (simp only: same same')
  moreover have "subscriberTask demo_modules demo_options JNull \<lparr>event = ''NOTE_ADDED'', payload = JNumber 7\<rparr> sub_gone =
     (Inl (Thrown ''gone''),
      [ExecuteCall conn_gone (JString ''match''), IteratorNext, SendToConnection conn_gone ''4:next''])"
    by (simp add: demo_defs run_defs)
  moreover have "subscriberTask demo_modules demo_options JNull \<lparr>event = ''NOTE_ADDED'', payload = JNumber 7\<rparr> sub_broken =
     (Inl (Thrown ''pull''), [ExecuteCall conn_current (JString ''broken''), IteratorNext])"
    by (simp add: demo_defs run_defs)
  ultimately show ?thesis by simp
qed


text \<open>
  C2: a subscriber's task that fails, in the execution, the pull, the formatting or the
  delivery, ends as a resolved promise with the error logged; a task whose execution
  result is not an async iterable resolves after the call of the engine, with no delivery.
  The page then resolves, each subscriber's calls being what that subscriber's task does
  on its own, and the loop goes on: it asks for every later page and runs it, and ends as
  the generator ends. With the subscriber or without it, the other subscribers of the page
  and those of the later pages are executed and delivered to in the same way.
\<close>

theorem per_subscriber_isolation:
  "(\<forall>e l. subscriberTask M opts lc ev s = (Inl e, l) \<longrightarrow>
       catch_log (subscriberTask M opts lc ev s) = (Inr (), l @ [ConsoleLog e])) \<and>
   (\<forall>r. execute M opts (executeOptions M lc ev s) = Inr (ExecutionResult r) \<longrightarrow>
       catch_log (subscriberTask M opts lc ev s) =
         (Inr (), [ExecuteCall (connection s) (operation s)])) \<and>
   processPage M opts lc ev (before @ s # after) =
     (Inr (), map (settle M opts lc ev) before @ settle M opts lc ev s
                # map (settle M opts lc ev) after) \<and>
   processPage M opts lc ev (before @ after) =
     (Inr (), map (settle M opts lc ev) before @ map (settle M opts lc ev) after) \<and>
   forAwaitPages M opts lc ev (Yield (before @ s # after) rest) h =
     (generator_outcome rest,
      h @ [NextPage, Page (map (settle M opts lc ev) before @ settle M opts lc ev s
                             # map (settle M opts lc ev) after)]
        @ dispatch_actions M opts lc ev rest) \<and>
   forAwaitPages M opts lc ev (Yield (before @ after) rest) h =
     (generator_outcome rest,
      h @ [NextPage, Page (map (settle M opts lc ev) before @ map (settle M opts lc ev) after)]
        @ dispatch_actions M opts lc ev rest)"
proof (intro conjI allI impI)
  fix e l assume "subscriberTask M opts lc ev s = (Inl e, l)"
  then show "catch_log (subscriberTask M opts lc ev s) = (Inr (), l @ [ConsoleLog e])"
    by (simp add: catch_log_def)
next
  fix r assume "execute M opts (executeOptions M lc ev s) = Inr (ExecutionResult r)"
  then show "catch_log (subscriberTask M opts lc ev s) =
               (Inr (), [ExecuteCall (connection s) (operation s)])"
    by (simp add: subscriberTask_def catch_log_def)
next
  show "processPage M opts lc ev (before @ s # after) =
     (Inr (), map (settle M opts lc ev) before @ settle M opts lc ev s
                # map (settle M opts lc ev) after)"
    by (simp add: processPage_settled)
next
  show "processPage M opts lc ev (before @ after) =
     (Inr (), map (settle M opts lc ev) before @ map (settle M opts lc ev) after)"
    by (simp add: processPage_settled)
next
  have loop: "forAwaitPages M opts lc ev (Yield page rest) h =
      (generator_outcome rest,
       h @ [NextPage, Page (map (settle M opts lc ev) page)] @ dispatch_actions M opts lc ev rest)"
    for page
  proof -
    let ?F = "forAwaitPages M opts lc ev (Yield page rest) h"
    have "fst ?F = generator_outcome (Yield page rest)"
      by (rule forAwaitPages_outcome)
    moreover have "snd ?F = h @ dispatch_actions M opts lc ev (Yield page rest)"
      by (rule forAwaitPages_actions)
    ultimately show ?thesis
      by (cases ?F) simp
  qed
  show "forAwaitPages M opts lc ev (Yield (before @ s # after) rest) h =
     (generator_outcome rest,
      h @ [NextPage, Page (map (settle M opts lc ev) before @ settle M opts lc ev s
                             # map (settle M opts lc ev) after)]
        @ dispatch_actions M opts lc ev rest)"
    using loop[of "before @ s # after"] by simp
  show "forAwaitPages M opts lc ev (Yield (before @ after) rest) h =
     (generator_outcome rest,
      h @ [NextPage, Page (map (settle M opts lc ev) before @ map (settle M opts lc ev) after)]
        @ dispatch_actions M opts lc ev rest)"
    using loop[of "before @ after"] by simp
qed

theorem per_subscriber_isolation_witness:
  "subscriberTask demo_modules demo_options JNull \<lparr>event = ''NOTE_ADDED'', payload = JNumber 7\<rparr> sub_gone =
     (Inl (Thrown ''gone''),
      [ExecuteCall conn_gone (JString ''match''), IteratorNext, SendToConnection conn_gone ''4:next'']) \<and>
   execute demo_modules demo_options
     (executeOptions demo_modules JNull \<lparr>event = ''NOTE_ADDED'', payload = JNumber 7\<rparr> sub_invalid) =
     Inr (ExecutionResult JNull) \<and>
   forAwaitPages demo_modules demo_options JNull \<lparr>event = ''NOTE_ADDED'', payload = JNumber 7\<rparr>
     (Yield [sub_match, sub_gone, sub_filtered] (Yield [sub_legacy] End)) [] =
     (Inr (),
      [NextPage,
       Page [[ExecuteCall conn_current (JString ''match''), IteratorNext,
              SendToConnection conn_current ''1:next''],
             [ExecuteCall conn_gone (JString ''match''), IteratorNext,
              SendToConnection conn_gone ''4:next'', ConsoleLog (Thrown ''gone'')],
             [ExecuteCall conn_current (JString ''filtered''), IteratorNext]],
       NextPage,
       Page [[ExecuteCall conn_legacy (JString ''match''), IteratorNext,
              SendToConnection conn_legacy ''2:data'']],
       NextPage]) \<and>
   forAwaitPages demo_modules demo_options JNull \<lparr>event = ''NOTE_ADDED'', payload = JNumber 7\<rparr>
     (Yield [sub_match, sub_filtered] (Yield [sub_legacy] End)) [] =
     (Inr (),
      [NextPage,
       Page [[ExecuteCall conn_current (JString ''match''), IteratorNext,
              SendToConnection conn_current ''1:next''],
             [ExecuteCall conn_current (JString ''filtered''), IteratorNext]],
       NextPage,
       Page [[ExecuteCall conn_legacy (JString ''match''), IteratorNext,
              SendToConnection conn_legacy ''2:data'']],
       NextPage]) \<and>
   forAwaitPages demo_modules demo_options JNull \<lparr>event = ''NOTE_ADDED'', payload = JNumber 7\<rparr>
     (Yield [sub_invalid, sub_match] (Yield [sub_legacy] End)) [] =
     (Inr (),
      [NextPage,
       Page [[ExecuteCall conn_current (JString ''invalid'')],
             [ExecuteCall conn_current (JString ''match''), IteratorNext,
              SendToConnection conn_current ''1:next'']],
       NextPage,
       Page [[ExecuteCall conn_legacy (JString ''match''), IteratorNext,
              SendToConnection conn_legacy ''2:data'']],
       NextPage])"
proof -
  let ?ev = "\<lparr>event = ''NOTE_ADDED'', payload = JNumber 7\<rparr>"
  let ?later = "Yield [sub_legacy] End"
  have gone: "subscriberTask demo_modules demo_options JNull ?ev sub_gone =
     (Inl (Thrown ''gone''),
      [ExecuteCall conn_gone (JString ''match''), IteratorNext, SendToConnection conn_gone ''4:next''])"
    by (simp add: demo_defs run_defs)
  have invalid: "execute demo_modules demo_options (executeOptions demo_modules JNull ?ev sub_invalid) =
     Inr (ExecutionResult JNull)"
    by (simp add: demo_defs executeOptions_def)
  have c: "connection sub_invalid = conn_current" "operation sub_invalid = JString ''invalid''"
    by (simp_all add: sub_invalid_def)
  have others:
    "settle demo_modules demo_options JNull ?ev sub_match =
       [ExecuteCall conn_current (JString ''match''), IteratorNext,
        SendToConnection conn_current ''1:next'']"
    "settle demo_modules demo_options JNull ?ev sub_filtered =
       [ExecuteCall conn_current (JString ''filtered''), IteratorNext]"
    "settle demo_modules demo_options JNull ?ev sub_legacy =
       [ExecuteCall conn_legacy (JString ''match''), IteratorNext,
        SendToConnection conn_legacy ''2:data'']"
    by (simp_all add: settle_def demo_defs run_defs)
  note a = per_subscriber_isolation[of demo_modules demo_options JNull ?ev sub_gone
             "[sub_match]" "[sub_filtered]" ?later "[]"]
  note b = per_subscriber_isolation[of demo_modules demo_options JNull ?ev sub_invalid
             "[]" "[sub_match]" ?later "[]"]
  note a_with = a[THEN conjunct2, THEN conjunct2, THEN conjunct2, THEN conjunct2, THEN conjunct1]
  note a_without = a[THEN conjunct2, THEN conjunct2, THEN conjunct2, THEN conjunct2, THEN conjunct2]
  note b_with = b[THEN conjunct2, THEN conjunct2, THEN conjunct2, THEN conjunct2, THEN conjunct1]
  have sg: "settle demo_modules demo_options JNull ?ev sub_gone =
       [ExecuteCall conn_gone (JString ''match''), IteratorNext,
        SendToConnection conn_gone ''4:next'', ConsoleLog (Thrown ''gone'')]"
    using a gone by (simp add: settle_def)
  have si: "settle demo_modules demo_options JNull ?ev sub_invalid =
       [ExecuteCall conn_current (JString ''invalid'')]"
    using b invalid c by (simp add: settle_def)
  have "forAwaitPages demo_modules demo_options JNull ?ev
          (Yield [sub_match, sub_gone, sub_filtered] ?later) [] =
        (Inr (), [NextPage,
           Page [settle demo_modules demo_options JNull ?ev sub_match,
                 settle demo_modules demo_options JNull ?ev sub_gone,
                 settle demo_modules demo_options JNull ?ev sub_filtered],
           NextPage, Page [settle demo_modules demo_options JNull ?ev sub_legacy], NextPage])"
    using a_with by (simp del: forAwaitPages.simps)
  moreover have "forAwaitPages demo_modules demo_options JNull ?ev
          (Yield [sub_match, sub_filtered] ?later) [] =
        (Inr (), [NextPage,
           Page [settle demo_modules demo_options JNull ?ev sub_match,
                 settle demo_modules demo_options JNull ?ev sub_filtered],
           NextPage, Page [settle demo_modules demo_options JNull ?ev sub_legacy], NextPage])"
    using a_without by (simp del: forAwaitPages.simps)
  moreover have "forAwaitPages demo_modules demo_options JNull ?ev
          (Yield [sub_invalid, sub_match] ?later) [] =
        (Inr (), [NextPage,
           Page [settle demo_modules demo_options JNull ?ev sub_invalid,
                 settle demo_modules demo_options JNull ?ev sub_match],
           NextPage, Page [settle demo_modules demo_options JNull ?ev sub_legacy], NextPage])"
    using b_with by (simp del: forAwaitPages.simps)
  ultimately show ?thesis
    using gone invalid by (simp only: others sg si simp_thms)
qed


text \<open>
  C3: the decoding of lines 69-71 is under no catch. A record without a \<open>dynamodb\<close> field
  makes the handler reject with the \<open>TypeError\<close> of the property access, and a record
  on whose image \<open>unmarshall\<close> throws makes it reject with what was thrown: the record
  is not skipped, nothing is added to the history, and the records after it are not
  processed. In the deployment the record that follows, which alone is delivered, is lost.
\<close>

theorem decode_failure_rejects_handler:
  "processDynamoDBStreamEvents M opts
     (\<lparr>eventName = Some INSERT, dynamodb = None\<rparr> # Records) lc h = (Inl TypeError, h) \<and>
   processDynamoDBStreamEvents (M\<lparr>unmarshall := (unmarshall M)(img := Inl e)\<rparr>) opts
     (\<lparr>eventName = Some INSERT, dynamodb = Some \<lparr>NewImage = img\<rparr>\<rparr> # Records) lc h = (Inl e, h) \<and>
   processDynamoDBStreamEvents demo_modules demo_options
     [\<lparr>eventName = Some INSERT, dynamodb = None\<rparr>, insert_record (JNumber 7)] JNull [] =
     (Inl TypeError, []) \<and>
   fst (processDynamoDBStreamEvents demo_modules demo_options [insert_record (JNumber 7)] JNull []) =
     Inr () \<and>
   Page [[ExecuteCall conn_gone (JString ''match''), IteratorNext,
          SendToConnection conn_gone ''4:next'', ConsoleLog (Thrown ''gone'')],
         [ExecuteCall conn_current (JString ''match''), IteratorNext,
          SendToConnection conn_current ''1:next'']]
     \<in> set (snd (processDynamoDBStreamEvents demo_modules demo_options
                    [insert_record (JNumber 7)] JNull []))"
proof (intro conjI)
  show "processDynamoDBStreamEvents M opts
     (\<lparr>eventName = Some INSERT, dynamodb = None\<rparr> # Records) lc h = (Inl TypeError, h)"
    by simp
  show "processDynamoDBStreamEvents (M\<lparr>unmarshall := (unmarshall M)(img := Inl e)\<rparr>) opts
     (\<lparr>eventName = Some INSERT, dynamodb = Some \<lparr>NewImage = img\<rparr>\<rparr> # Records) lc h = (Inl e, h)"
    by simp
  show "processDynamoDBStreamEvents demo_modules demo_options
     [\<lparr>eventName = Some INSERT, dynamodb = None\<rparr>, insert_record (JNumber 7)] JNull [] =
     (Inl TypeError, [])"
    by simp
  show "fst (processDynamoDBStreamEvents demo_modules demo_options [insert_record (JNumber 7)] JNull []) =
     Inr ()"
    by (simp add: demo_run del: processDynamoDBStreamEvents.simps)
  show "Page [[ExecuteCall conn_gone (JString ''match''), IteratorNext,
          SendToConnection conn_gone ''4:next'', ConsoleLog (Thrown ''gone'')],
         [ExecuteCall conn_current (JString ''match''), IteratorNext,
          SendToConnection conn_current ''1:next'']]
     \<in> set (snd (processDynamoDBStreamEvents demo_modules demo_options
                    [insert_record (JNumber 7)] JNull []))"
    by (simp add: demo_run del: processDynamoDBStreamEvents.simps)
qed

text \<open>
  C4: records whose \<open>eventName\<close> is not INSERT contribute nothing: the handler does on a
  batch exactly what it does on the batch without them (no request to the registry, no
  execution, no delivery for them), and goes on with the next record.
\<close>

theorem non_insert_records_ignored:
  "processDynamoDBStreamEvents M opts Records lc h =
     processDynamoDBStreamEvents M opts (filter (\<lambda>r. eventName r = Some INSERT) Records) lc h"
proof (induction Records arbitrary: h)
  case Nil
  show ?case by simp
next
  case (Cons r rs)
  show ?case
  proof (cases "eventName r = Some INSERT")
    case False
    then show ?thesis using Cons.IH[of h] by simp
  next
    case True
    have step: "processDynamoDBStreamEvents M opts (r # xs) lc h =
        (case dynamodb r of
           None \<Rightarrow> (Inl TypeError, h)
         | Some d \<Rightarrow>
             (case unmarshall M (NewImage d) of
                Inl e \<Rightarrow> (Inl e, h)
              | Inr ev \<Rightarrow>
                  (case forAwaitPages M opts lc ev
                          (subscribersByEventName (subscriptionManager opts) (event ev))
                          (h @ [SubscribersByEventName (event ev)]) of
                     (Inl e, h') \<Rightarrow> (Inl e, h')
                   | (Inr u, h') \<Rightarrow> processDynamoDBStreamEvents M opts xs lc h')))" for xs
      using True by simp
    have "filter (\<lambda>r. eventName r = Some INSERT) (r # rs) =
            r # filter (\<lambda>r. eventName r = Some INSERT) rs"
      using True by simp
    then show ?thesis
      by (simp only: step Cons.IH split: option.split sum.split prod.split)
  qed
qed

text \<open>
  C5: for one subscriber and one event, \<open>next\<close> is called at most once on the iterator
  (once when the engine gives an async iterable), at most one message is sent, and what
  the iterator would give after its first result plays no role.
\<close>

theorem at_most_one_pull_and_delivery:
  "length (filter (\<lambda>c. c = IteratorNext) (settle M opts lc ev s)) \<le> 1 \<and>
   length (filter isSend (settle M opts lc ev s)) \<le> 1 \<and>
   (\<forall>it. execute M opts (executeOptions M lc ev s) = Inr (AsyncIterable it) \<longrightarrow>
      length (filter (\<lambda>c. c = IteratorNext) (settle M opts lc ev s)) = 1) \<and>
   subscriberTask (M\<lparr>execute := \<lambda>o' x. Inr (AsyncIterable (r # rest))\<rparr>) opts lc ev s =
     subscriberTask (M\<lparr>execute := \<lambda>o' x. Inr (AsyncIterable [r])\<rparr>) opts lc ev s"
proof (intro conjI allI impI)
  show "length (filter (\<lambda>c. c = IteratorNext) (settle M opts lc ev s)) \<le> 1"
    by (simp add: settle_cases split: sum.split execute_result.split option.split)
  show "length (filter isSend (settle M opts lc ev s)) \<le> 1"
    by (simp add: settle_cases split: sum.split execute_result.split option.split)
  show "length (filter (\<lambda>c. c = IteratorNext) (settle M opts lc ev s)) = 1"
    if "execute M opts (executeOptions M lc ev s) = Inr (AsyncIterable it)" for it
    using that by (simp add: settle_cases split: sum.split option.split)
  show "subscriberTask (M\<lparr>execute := \<lambda>o' x. Inr (AsyncIterable (r # rest))\<rparr>) opts lc ev s =
     subscriberTask (M\<lparr>execute := \<lambda>o' x. Inr (AsyncIterable [r])\<rparr>) opts lc ev s"
    by (simp add: subscriberTask_def iterator_next_def Let_def split: sum.split option.split)
qed

theorem at_most_one_pull_and_delivery_witness:
  "execute demo_modules demo_options
     (executeOptions demo_modules JNull \<lparr>event = ''NOTE_ADDED'', payload = JNumber 7\<rparr> sub_match) =
     Inr (AsyncIterable [Inr (Some (JNumber 7))]) \<and>
   length (filter (\<lambda>c. c = IteratorNext)
     (settle demo_modules demo_options JNull \<lparr>event = ''NOTE_ADDED'', payload = JNumber 7\<rparr> sub_match)) = 1"
proof -
  let ?ev = "\<lparr>event = ''NOTE_ADDED'', payload = JNumber 7\<rparr>"
  have x: "execute demo_modules demo_options (executeOptions demo_modules JNull ?ev sub_match) =
     Inr (AsyncIterable [Inr (Some (JNumber 7))])"
    by (simp add: demo_defs executeOptions_def asyncIterator_single)
  from at_most_one_pull_and_delivery[where M = demo_modules and opts = demo_options
         and lc = JNull and ev = ?ev and s = sub_match] x
  show ?thesis by simp
qed

text \<open>
  C6: a message sent for a subscriber goes to that subscriber's connection and is the
  formatting of the message whose id is the subscriber's \<open>operationId\<close>, whose payload is
  the first value pulled, and whose type is the \<open>GQL_DATA\<close> tag of the protocol that
  \<open>getProtocol\<close> gives for the connection's \<open>useLegacyProtocol\<close>, taken as false when it is
  absent.
\<close>

theorem delivered_message_format:
  assumes "SendToConnection c m \<in> set (settle M opts lc ev s)"
  shows "c = connection s \<and>
         (\<exists>it v. execute M opts (executeOptions M lc ev s) = Inr (AsyncIterable it) \<and>
                 fst (iterator_next it) = Inr (Some v) \<and> v \<noteq> JNull \<and>
                 formatMessage M
                   \<lparr>id_m = operationId s, payload_m = v,
                    type_m = GQL_DATA (SERVER_EVENT_TYPES (getProtocol M
                               (case useLegacyProtocol (data (connection s)) of
                                  None \<Rightarrow> False | Some b \<Rightarrow> b)))\<rparr> = Inr m)"
  using assms
  by (auto simp: settle_cases split: sum.splits execute_result.splits option.splits if_splits)


theorem delivered_message_format_witness:
  "SendToConnection conn_legacy ''2:data'' \<in>
     set (settle demo_modules demo_options JNull \<lparr>event = ''NOTE_ADDED'', payload = JNumber 7\<rparr> sub_legacy) \<and>
   formatMessage demo_modules
     \<lparr>id_m = ''2'', payload_m = JNumber 7,
      type_m = GQL_DATA (SERVER_EVENT_TYPES (getProtocol demo_modules True))\<rparr> = Inr ''2:data'' \<and>
   SendToConnection conn_current ''1:next'' \<in>
     set (settle demo_modules demo_options JNull \<lparr>event = ''NOTE_ADDED'', payload = JNumber 7\<rparr> sub_match) \<and>
   formatMessage demo_modules
     \<lparr>id_m = ''1'', payload_m = JNumber 7,
      type_m = GQL_DATA (SERVER_EVENT_TYPES (getProtocol demo_modules False))\<rparr> = Inr ''1:next''"
proof -
  let ?ev = "\<lparr>event = ''NOTE_ADDED'', payload = JNumber 7\<rparr>"
  have legacy: "SendToConnection conn_legacy ''2:data'' \<in>
     set (settle demo_modules demo_options JNull ?ev sub_legacy)"
    by (simp add: settle_def demo_defs run_defs)
  have current: "SendToConnection conn_current ''1:next'' \<in>
     set (settle demo_modules demo_options JNull ?ev sub_match)"
    by (simp add: settle_def demo_defs run_defs)
  have x: "execute demo_modules demo_options (executeOptions demo_modules JNull ?ev s) =
             Inr (AsyncIterable [Inr (Some (JNumber 7))])"
    if "exec_operation (executeOptions demo_modules JNull ?ev s) = JString ''match''" for s
    using that by (simp add: demo_modules_def demo_execute_def executeOptions_def asyncIterator_single)
  have flags: "useLegacyProtocol (data (connection sub_legacy)) = Some True"
    "useLegacyProtocol (data (connection sub_match)) = None"
    "operationId sub_legacy = ''2''" "operationId sub_match = ''1''"
    by (simp_all add: sub_legacy_def sub_match_def conn_legacy_def conn_current_def)
  have ops: "exec_operation (executeOptions demo_modules JNull ?ev sub_legacy) = JString ''match''"
    "exec_operation (executeOptions demo_modules JNull ?ev sub_match) = JString ''match''"
    by (simp_all add: executeOptions_def sub_legacy_def sub_match_def)
  from delivered_message_format[OF legacy] x[OF ops(1)] flags
  have "formatMessage demo_modules
     \<lparr>id_m = ''2'', payload_m = JNumber 7,
      type_m = GQL_DATA (SERVER_EVENT_TYPES (getProtocol demo_modules True))\<rparr> = Inr ''2:data''"
    by (auto simp: iterator_next_def)
  moreover
  from delivered_message_format[OF current] x[OF ops(2)] flags
  have "formatMessage demo_modules
     \<lparr>id_m = ''1'', payload_m = JNumber 7,
      type_m = GQL_DATA (SERVER_EVENT_TYPES (getProtocol demo_modules False))\<rparr> = Inr ''1:next''"
    by (auto simp: iterator_next_def)
  ultimately show ?thesis
    using legacy current by simp
qed

text \<open>
  C7: a \<open>PubSub\<close> built from one event, asked for a name or a list of names: if the
  event's name is among them it yields the payload, parsed when it is a string, as it is
  otherwise, and then ends; if not it yields nothing; it never yields more than one
  element.
\<close>

theorem single_event_source:
  "(event ev \<in> set (names_of ns) \<longrightarrow>
      (\<forall>s v. payload ev = JString s \<and> JSON_parse M s = Inr v \<longrightarrow>
         asyncIterator M \<lparr>events = [ev]\<rparr> ns = Inr [Inr (Some v)]) \<and>
      ((\<forall>s. payload ev \<noteq> JString s) \<longrightarrow>
         asyncIterator M \<lparr>events = [ev]\<rparr> ns = Inr [Inr (Some (payload ev))])) \<and>
   (event ev \<notin> set (names_of ns) \<longrightarrow> asyncIterator M \<lparr>events = [ev]\<rparr> ns = Inr []) \<and>
   (\<forall>it. asyncIterator M \<lparr>events = [ev]\<rparr> ns = Inr it \<longrightarrow>
      length it \<le> 1 \<and> fst (iterator_next (snd (iterator_next it))) = Inr None)"
  by (cases "payload ev")
     (auto simp: asyncIterator_single iterator_next_def split: sum.splits if_splits)

theorem single_event_source_witness:
  "asyncIterator demo_modules \<lparr>events = [\<lparr>event = ''NOTE_ADDED'', payload = JString ''1''\<rparr>]\<rparr>
     (Name ''NOTE_ADDED'') = Inr [Inr (Some (JNumber 1))] \<and>
   asyncIterator demo_modules \<lparr>events = [\<lparr>event = ''NOTE_ADDED'', payload = JNumber 7\<rparr>]\<rparr>
     (Names [''OTHER'', ''NOTE_ADDED'']) = Inr [Inr (Some (JNumber 7))] \<and>
   asyncIterator demo_modules \<lparr>events = [\<lparr>event = ''NOTE_ADDED'', payload = JString ''x''\<rparr>]\<rparr>
     (Name ''OTHER'') = Inr [] \<and>
   length [Inr (Some (JNumber 1)) :: error + json option] \<le> 1"
  using single_event_source[of "\<lparr>event = ''NOTE_ADDED'', payload = JString ''1''\<rparr>" "Name ''NOTE_ADDED''" demo_modules]
        single_event_source[of "\<lparr>event = ''NOTE_ADDED'', payload = JNumber 7\<rparr>" "Names [''OTHER'', ''NOTE_ADDED'']" demo_modules]
        single_event_source[of "\<lparr>event = ''NOTE_ADDED'', payload = JString ''x''\<rparr>" "Name ''OTHER''" demo_modules]
  by (simp add: demo_modules_def)

text \<open>
  C8: the records are handled in order, one after the other: what the handler does on
  \<open>rs1 @ rs2\<close> is what it does on \<open>rs1\<close>, then, if that resolved, what it does on
  \<open>rs2\<close> from the history reached. Within a dispatch, the next page is asked for only
  after the page before it has been run to completion, every task of it settled.
\<close>

theorem strictly_sequential:
  "processDynamoDBStreamEvents M opts (rs1 @ rs2) lc h =
     (case processDynamoDBStreamEvents M opts rs1 lc h of
        (Inl e, h') \<Rightarrow> (Inl e, h')
      | (Inr u, h') \<Rightarrow> processDynamoDBStreamEvents M opts rs2 lc h') \<and>
   forAwaitPages M opts lc ev (Yield subscribers rest) k =
     forAwaitPages M opts lc ev rest
       (k @ [NextPage, Page (map (settle M opts lc ev) subscribers)]) \<and>
   snd (forAwaitPages M opts lc ev ps k) = k @ dispatch_actions M opts lc ev ps"
proof (intro conjI)
  show "processDynamoDBStreamEvents M opts (rs1 @ rs2) lc h =
     (case processDynamoDBStreamEvents M opts rs1 lc h of
        (Inl e, h') \<Rightarrow> (Inl e, h')
      | (Inr u, h') \<Rightarrow> processDynamoDBStreamEvents M opts rs2 lc h')"
  proof (induction rs1 arbitrary: h)
    case Nil
    show ?case by simp
  next
    case (Cons r rs)
    show ?case
    proof (cases "eventName r = Some INSERT")
      case False
      then show ?thesis using Cons.IH[of h] by simp
    next
      case True
      show ?thesis
      proof (cases "dynamodb r")
        case None
        then show ?thesis using True by simp
      next
        case (Some d)
        show ?thesis
        proof (cases "unmarshall M (NewImage d)")
          case (Inl e)
          then show ?thesis using True Some by simp
        next
          case (Inr ev')
          obtain res h1 where F: "forAwaitPages M opts lc ev'
              (subscribersByEventName (subscriptionManager opts) (event ev'))
              (h @ [SubscribersByEventName (event ev')]) = (res, h1)"
            by (cases "forAwaitPages M opts lc ev'
              (subscribersByEventName (subscriptionManager opts) (event ev'))
              (h @ [SubscribersByEventName (event ev')])") blast
          show ?thesis
          proof (cases res)
            case (Inl e)
            then show ?thesis using True Some Inr F by simp
          next
            case ok: (Inr u)
            then show ?thesis using True Some Inr F Cons.IH[of h1] by simp
          qed
        qed
      qed
    qed
  qed
next
  show "forAwaitPages M opts lc ev (Yield subscribers rest) k =
     forAwaitPages M opts lc ev rest
       (k @ [NextPage, Page (map (settle M opts lc ev) subscribers)])"
    by (simp add: processPage_settled)
next
  show "snd (forAwaitPages M opts lc ev ps k) = k @ dispatch_actions M opts lc ev ps"
    by (rule forAwaitPages_actions)
qed

text \<open>
  C9: the handler keeps no state of its own: run again on the same batch, from the history
  the first run left, it resolves or rejects the same way and appends the same actions
  (the same requests, executions and deliveries) once more. Nothing is deduplicated.
\<close>

theorem same_batch_same_actions:
  "\<exists>r t. processDynamoDBStreamEvents M opts Records lc h = (r, h @ t) \<and>
          processDynamoDBStreamEvents M opts Records lc (h @ t) = (r, h @ t @ t)"
proof -
  let ?r = "fst (processDynamoDBStreamEvents M opts Records lc [])"
  let ?t = "snd (processDynamoDBStreamEvents M opts Records lc [])"
  have "processDynamoDBStreamEvents M opts Records lc h = (?r, h @ ?t)"
    by (rule process_history)
  moreover have "processDynamoDBStreamEvents M opts Records lc (h @ ?t) = (?r, (h @ ?t) @ ?t)"
    by (rule process_history)
  ultimately show ?thesis by auto
qed

text \<open>
  C10 (amended): when the payload of a decoded event is a string that \<open>JSON.parse\<close>
  refuses, the record is decoded and dispatched like any other, and the handler ends as
  the registry's generator ends. The parse happens in each subscriber's task: every
  request to the task's event source for an iterator under the event's name throws the
  parse error. A subscriber for whom \<open>execute\<close> rejects ends with the error logged and
  nothing sent; one for whom \<open>execute\<close> gives a plain execution result ends with nothing
  logged and nothing sent (lines 105-108).
\<close>

theorem invalid_json_surfaces_in_tasks:
  assumes ins: "eventName r = Some INSERT"
    and img: "dynamodb r = Some d"
    and dec: "unmarshall M (NewImage d) = Inr ev"
    and str: "payload ev = JString str"
    and bad: "JSON_parse M str = Inl perr"
  shows "(\<forall>s ns. event ev \<in> set (names_of ns) \<longrightarrow>
            exec_pubSub (executeOptions M lc ev s) ns = Inl perr) \<and>
         processDynamoDBStreamEvents M opts [r] lc h =
           (generator_outcome (subscribersByEventName (subscriptionManager opts) (event ev)),
            h @ SubscribersByEventName (event ev)
              # dispatch_actions M opts lc ev
                  (subscribersByEventName (subscriptionManager opts) (event ev))) \<and>
         (\<forall>s e. execute M opts (executeOptions M lc ev s) = Inl e \<longrightarrow>
            settle M opts lc ev s = [ExecuteCall (connection s) (operation s), ConsoleLog e]) \<and>
         (\<forall>s res. execute M opts (executeOptions M lc ev s) = Inr (ExecutionResult res) \<longrightarrow>
            settle M opts lc ev s = [ExecuteCall (connection s) (operation s)])"
proof (intro conjI allI impI)
  fix s ns assume "event ev \<in> set (names_of ns)"
  then show "exec_pubSub (executeOptions M lc ev s) ns = Inl perr"
    using str bad by (simp add: executeOptions_def asyncIterator_single)
next
  let ?ps = "subscribersByEventName (subscriptionManager opts) (event ev)"
  let ?F = "forAwaitPages M opts lc ev ?ps (h @ [SubscribersByEventName (event ev)])"
  have "fst ?F = generator_outcome ?ps"
    by (rule forAwaitPages_outcome)
  moreover have "snd ?F = (h @ [SubscribersByEventName (event ev)]) @ dispatch_actions M opts lc ev ?ps"
    by (rule forAwaitPages_actions)
  ultimately have F: "?F = (generator_outcome ?ps,
      h @ SubscribersByEventName (event ev) # dispatch_actions M opts lc ev ?ps)"
    by (cases ?F) simp
  show "processDynamoDBStreamEvents M opts [r] lc h =
          (generator_outcome ?ps, h @ SubscribersByEventName (event ev) # dispatch_actions M opts lc ev ?ps)"
    using ins img dec F by (cases "generator_outcome ?ps") simp_all
next
  fix s e assume "execute M opts (executeOptions M lc ev s) = Inl e"
  then show "settle M opts lc ev s = [ExecuteCall (connection s) (operation s), ConsoleLog e]"
    by (simp add: settle_cases)
next
  fix s res assume "execute M opts (executeOptions M lc ev s) = Inr (ExecutionResult res)"
  then show "settle M opts lc ev s = [ExecuteCall (connection s) (operation s)]"
    by (simp add: settle_cases)
qed


theorem invalid_json_surfaces_in_tasks_witness:
  "exec_pubSub
     (executeOptions demo_modules JNull \<lparr>event = ''NOTE_ADDED'', payload = JString ''x''\<rparr> sub_match)
     (Name ''NOTE_ADDED'') = Inl SyntaxError \<and>
   processDynamoDBStreamEvents demo_modules matching_options [insert_record (JString ''x'')] JNull [] =
     (Inr (),
      [SubscribersByEventName ''NOTE_ADDED'',
       NextPage,
       Page [[ExecuteCall conn_current (JString ''match''), ConsoleLog SyntaxError]],
       NextPage,
       Page [[ExecuteCall conn_legacy (JString ''match''), ConsoleLog SyntaxError]],
       NextPage]) \<and>
   settle reporting_modules matching_options JNull
     \<lparr>event = ''NOTE_ADDED'', payload = JString ''x''\<rparr> sub_match =
     [ExecuteCall conn_current (JString ''match'')]"
proof -
  let ?ev = "\<lparr>event = ''NOTE_ADDED'', payload = JString ''x''\<rparr>"
  let ?r = "insert_record (JString ''x'')"
  let ?d = "\<lparr>NewImage = Some (JString ''x'')\<rparr>"
  have ins: "eventName ?r = Some INSERT" and img: "dynamodb ?r = Some ?d"
    by (simp_all add: insert_record_def)
  have str: "payload ?ev = JString ''x''"
    by simp
  have dec: "unmarshall demo_modules (NewImage ?d) = Inr ?ev"
    and bad: "JSON_parse demo_modules ''x'' = Inl SyntaxError"
    by (simp_all add: demo_modules_def)
  have dec': "unmarshall reporting_modules (NewImage ?d) = Inr ?ev"
    and bad': "JSON_parse reporting_modules ''x'' = Inl SyntaxError"
    by (simp_all add: reporting_modules_def demo_modules_def)
  note A = invalid_json_surfaces_in_tasks[OF ins img dec str bad, of JNull matching_options "[]"]
  note B = invalid_json_surfaces_in_tasks[OF ins img dec' str bad', of JNull matching_options "[]"]
  have name: "event ?ev \<in> set (names_of (Name ''NOTE_ADDED''))"
    by simp
  have src: "exec_pubSub (executeOptions demo_modules JNull ?ev s) (Name ''NOTE_ADDED'') = Inl SyntaxError"
    for s
    using A name by blast
  have src': "exec_pubSub (executeOptions reporting_modules JNull ?ev s) (Name ''NOTE_ADDED'') = Inl SyntaxError"
    for s
    using B name by blast
  have ops: "exec_operation (executeOptions demo_modules JNull ?ev sub_match) = JString ''match''"
    "exec_operation (executeOptions demo_modules JNull ?ev sub_legacy) = JString ''match''"
    by (simp_all add: executeOptions_def sub_match_def sub_legacy_def)
  have rejected: "execute demo_modules matching_options (executeOptions demo_modules JNull ?ev s) =
      Inl SyntaxError"
    if "exec_operation (executeOptions demo_modules JNull ?ev s) = JString ''match''" for s
    using that src[of s] by (simp add: demo_modules_def demo_execute_def)
  have reported: "execute reporting_modules matching_options
      (executeOptions reporting_modules JNull ?ev sub_match) =
      Inr (ExecutionResult (JObject [(''errors'', JArray [JString ''subscribe failed''])]))"
    using src'[of sub_match] by (simp add: reporting_modules_def reporting_execute_def)
  have subs: "connection sub_match = conn_current" "operation sub_match = JString ''match''"
    "connection sub_legacy = conn_legacy" "operation sub_legacy = JString ''match''"
    by (simp_all add: sub_match_def sub_legacy_def)
  have logged: "settle demo_modules matching_options JNull ?ev sub_match =
      [ExecuteCall conn_current (JString ''match''), ConsoleLog SyntaxError]"
    "settle demo_modules matching_options JNull ?ev sub_legacy =
      [ExecuteCall conn_legacy (JString ''match''), ConsoleLog SyntaxError]"
    using A rejected[OF ops(1)] rejected[OF ops(2)] subs by auto
  have silent: "settle reporting_modules matching_options JNull ?ev sub_match =
      [ExecuteCall conn_current (JString ''match'')]"
    using B reported subs by auto
  have reg: "subscribersByEventName (subscriptionManager matching_options) name = matching_pages"
    for name
    by (simp add: matching_options_def)
  have run: "processDynamoDBStreamEvents demo_modules matching_options [?r] JNull [] =
      (Inr (),
       [SubscribersByEventName ''NOTE_ADDED'',
        NextPage, Page [settle demo_modules matching_options JNull ?ev sub_match],
        NextPage, Page [settle demo_modules matching_options JNull ?ev sub_legacy],
        NextPage])"
    using A[THEN conjunct2, THEN conjunct1]
    by (simp add: reg matching_pages_def del: processDynamoDBStreamEvents.simps)
  show ?thesis
    using src[of sub_match] run silent by (simp only: logged simp_thms)
qed

text \<open>
  An engine that reports the thrown parse error as a plain execution result: the parse
  error is thrown in the subscriber's task, yet nothing is logged for the subscriber, the
  task ending at the test of line 105.
\<close>

theorem invalid_json_not_always_logged:
  "JSON_parse reporting_modules ''x'' = Inl SyntaxError \<and>
   exec_pubSub
     (executeOptions reporting_modules JNull \<lparr>event = ''NOTE_ADDED'', payload = JString ''x''\<rparr> sub_match)
     (Name ''NOTE_ADDED'') = Inl SyntaxError \<and>
   catch_log (subscriberTask reporting_modules matching_options JNull
                \<lparr>event = ''NOTE_ADDED'', payload = JString ''x''\<rparr> sub_match) =
     (Inr (), [ExecuteCall conn_current (JString ''match'')]) \<and>
   ConsoleLog SyntaxError \<notin>
     set (settle reporting_modules matching_options JNull
            \<lparr>event = ''NOTE_ADDED'', payload = JString ''x''\<rparr> sub_match) \<and>
   processDynamoDBStreamEvents reporting_modules matching_options
     [insert_record (JString ''x'')] JNull [] =
     (Inr (),
      [SubscribersByEventName ''NOTE_ADDED'',
       NextPage, Page [[ExecuteCall conn_current (JString ''match'')]],
       NextPage, Page [[ExecuteCall conn_legacy (JString ''match'')]],
       NextPage])"
  by (simp add: reporting_modules_def reporting_execute_def matching_options_def matching_pages_def
        settle_def demo_defs run_defs)

end
